theory Spec2Isabelle
  imports Main
begin

section \<open>JavaScript values\<close>

text \<open>
  The values that the news module handles: what \<open>window\<close> globals hold, what
  \<open>JSON.parse\<close> returns and what the module builds itself. Objects are association
  lists (the first binding of a key is the property). \<open>JNum n\<close> stands for the
  integer-valued number \<open>n\<close> of the safe range (up to \<open>2^53 - 1\<close> in absolute value);
  a number with a fraction is no value of this type, and neither is a function. A
  string is the list of its code units, and the type \<open>char\<close> holds the code units
  below 256, so that \<open>CHR 0xA0\<close> is the no-break space U+00A0; a text with a code
  unit beyond that range is no value of this type.
\<close>

datatype jsval =
    JUndefined
  | JNull
  | JBool bool
  | JNum int
  | JStr string
  | JArr "jsval list"
  | JObj "(string \<times> jsval) list"

datatype js_error = TypeError | SyntaxError | FetchFailed | NetworkError

text \<open>\<open>!v\<close> is \<open>\<not> truthy v\<close>.\<close>

fun truthy :: "jsval \<Rightarrow> bool" where
  "truthy JUndefined = False"
| "truthy JNull = False"
| "truthy (JBool b) = b"
| "truthy (JNum n) = (n \<noteq> 0)"
| "truthy (JStr s) = (s \<noteq> [])"
| "truthy (JArr xs) = True"
| "truthy (JObj fs) = True"

fun nullish :: "jsval \<Rightarrow> bool" where
  "nullish JUndefined = True"
| "nullish JNull = True"
| "nullish v = False"

text \<open>
  \<open>v.k\<close> for a value that is neither \<open>null\<close> nor \<open>undefined\<close>, and for the property
  names the module reads (\<open>url\<close>, \<open>key\<close>, \<open>URL\<close>, \<open>ANON_KEY\<close>, \<open>id\<close>, \<open>title\<close>, ...):
  none of them is defined on a primitive or on an array, so only an object can
  answer with something else than \<open>undefined\<close>.
\<close>

fun js_prop :: "jsval \<Rightarrow> string \<Rightarrow> jsval" where
  "js_prop (JObj fs) k = (case map_of fs k of Some v \<Rightarrow> v | None \<Rightarrow> JUndefined)"
| "js_prop v k = JUndefined"

text \<open>\<open>v.k\<close> in general: reading a property of \<open>null\<close> or \<open>undefined\<close> throws.\<close>

definition get_prop :: "jsval \<Rightarrow> string \<Rightarrow> js_error + jsval" where
  "get_prop v k = (if nullish v then Inl TypeError else Inr (js_prop v k))"

subsection \<open>Text and JSON\<close>

text \<open>
  A text held by \<open>localStorage\<close> or by a response body. The module never looks
  inside such a text: it tests it for emptiness and hands it to \<open>JSON.parse\<close>. So a
  text is represented by what \<open>JSON.parse\<close> makes of it: \<open>Json v\<close> is a text that
  parses to \<open>v\<close>, \<open>Malformed s\<close> is the text \<open>s\<close>, on which \<open>JSON.parse\<close> throws
  (the empty text is one of these).
\<close>

datatype jstext = Malformed string | Json jsval

fun text_truthy :: "jstext \<Rightarrow> bool" where
  "text_truthy (Malformed s) = (s \<noteq> [])"
| "text_truthy (Json v) = True"

fun JSON_parse :: "jstext \<Rightarrow> js_error + jsval" where
  "JSON_parse (Malformed s) = Inl SyntaxError"
| "JSON_parse (Json v) = Inr v"

text \<open>
  What a value becomes through \<open>JSON.stringify\<close> and back: a property whose value
  is \<open>undefined\<close> is left out of an object, and \<open>undefined\<close> inside an array is
  written as \<open>null\<close>.
\<close>

fun json_norm :: "jsval \<Rightarrow> jsval"
  and json_norm_elems :: "jsval list \<Rightarrow> jsval list"
  and json_norm_fields :: "(string \<times> jsval) list \<Rightarrow> (string \<times> jsval) list" where
  "json_norm (JArr xs) = JArr (json_norm_elems xs)"
| "json_norm (JObj fs) = JObj (json_norm_fields fs)"
| "json_norm JUndefined = JUndefined"
| "json_norm JNull = JNull"
| "json_norm (JBool b) = JBool b"
| "json_norm (JNum n) = JNum n"
| "json_norm (JStr s) = JStr s"
| "json_norm_elems [] = []"
| "json_norm_elems (x # xs) =
     (if x = JUndefined then JNull else json_norm x) # json_norm_elems xs"
| "json_norm_fields [] = []"
| "json_norm_fields (f # fs) =
     (if snd f = JUndefined then json_norm_fields fs
      else (fst f, json_norm (snd f)) # json_norm_fields fs)"

text \<open>
  \<open>JSON.stringify v\<close> as a text. For \<open>undefined\<close> the call returns \<open>undefined\<close>, which
  \<open>localStorage.setItem\<close> would store as the nine letters.
\<close>

definition JSON_stringify :: "jsval \<Rightarrow> jstext" where
  "JSON_stringify v = (if v = JUndefined then Malformed ''undefined'' else Json (json_norm v))"

subsection \<open>String conversion\<close>

fun dec_nat :: "nat \<Rightarrow> string" where
  "dec_nat n =
     (if n < 10 then [''0123456789'' ! n]
      else dec_nat (n div 10) @ [''0123456789'' ! (n mod 10)])"

declare dec_nat.simps [simp del]

definition dec_int :: "int \<Rightarrow> string" where
  "dec_int i = (if i < 0 then CHR ''-'' # dec_nat (nat (- i)) else dec_nat (nat i))"

text \<open>
  The conversion that a template literal applies (\<open>`${v}`\<close>), and the one that
  \<open>Array.prototype.join\<close> applies to the elements of an array. An object with an own
  \<open>toString\<close> property cannot be converted, since that property is not a function.
  For a number the result is its decimal notation, which is what
  \<open>Number.prototype.toString\<close> gives on the integers of the safe range (up to
  \<open>2^53 - 1\<close> in absolute value); the general facts below that rest on the
  notation of a number assume that range.
\<close>

fun to_String :: "jsval \<Rightarrow> js_error + string"
  and join_elems :: "jsval list \<Rightarrow> js_error + string" where
  "to_String JUndefined = Inr ''undefined''"
| "to_String JNull = Inr ''null''"
| "to_String (JBool b) = Inr (if b then ''true'' else ''false'')"
| "to_String (JNum n) = Inr (dec_int n)"
| "to_String (JStr s) = Inr s"
| "to_String (JArr xs) = join_elems xs"
| "to_String (JObj fs) =
     (if map_of fs ''toString'' \<noteq> None then Inl TypeError else Inr ''[object Object]'')"
| "join_elems [] = Inr []"
| "join_elems (x # xs) =
     (case (if nullish x then Inr [] else to_String x) of
        Inl e \<Rightarrow> Inl e
      | Inr s \<Rightarrow>
          (if xs = [] then Inr s
           else (case join_elems xs of Inl e \<Rightarrow> Inl e | Inr r \<Rightarrow> Inr (s @ '','' @ r))))"

text \<open>The method call \<open>v.toString()\<close>: it throws on \<open>null\<close> and \<open>undefined\<close>.\<close>

definition call_toString :: "jsval \<Rightarrow> js_error + string" where
  "call_toString v = (if nullish v then Inl TypeError else to_String v)"

section \<open>The browser around the module\<close>

text \<open>
  A request as the module builds it: method, address, the access key (sent in the
  \<open>apikey\<close> header and, after \<open>Bearer\<close>, in \<open>Authorization\<close>), the further headers and
  the body. The key is kept as the value it is; turning it into header text is
  left to the network.
\<close>

datatype http_method = GET | POST | DELETE

record js_file =
  file_name :: string
  file_type :: string

datatype payload = NoBody | JsonBody jstext | FileBody js_file

datatype request = Request http_method string jsval "(string \<times> string) list" payload

text \<open>\<open>await fetch(...)\<close> either throws or yields a response: its \<open>ok\<close> flag and its body.\<close>

datatype response = Rejected | Response bool jstext

text \<open>
  What the user and the console get to see. Each message stands for the literal of
  the source; the quota message carries the count and the limit that it prints.
\<close>

datatype notice =
    PleaseFillTitleContent
  | PleaseEnterPin
  | IncorrectPin
  | UserLimitReached nat nat
  | NewsPublished
  | ErrorSavingToCloud jstext
  | SaveNetworkError
  | ErrorDeleting jstext
  | DeleteNetworkError
  | AccessDenied
  | AllNewsDeleted
  | ErrorClearing jstext
  | ClearNetworkError

datatype event =
    ConsoleWarn string
  | ConsoleError string
  | ConsoleException js_error
  | Alert notice
  | Fetch request
  | RenderedAdmin jsval

text \<open>
  The state that the module reads and writes: the globals on \<open>window\<close>,
  \<open>localStorage\<close>, and the effects so far, oldest first.
\<close>

record world =
  SB_URL :: jsval
  SB_KEY :: jsval
  SUPABASE_PUBLIC_CONFIG :: jsval
  ADMIN_PASSWORD_HASH :: jsval
  USER_PASSWORD_HASH :: jsval
  localStorage :: "string \<Rightarrow> jstext option"
  events :: "event list"

text \<open>
  What the module calls and does not define: the network, \<open>window.hashPassword\<close> (the
  digest as a string), the answers of the user to \<open>confirm\<close> and \<open>prompt\<close>
  (\<open>None\<close> is Cancel), the clock, and the name prefixes that \<open>uploadFile\<close> draws from
  \<open>Date.now()\<close> and \<open>Math.random()\<close> for the image and for the video. The network
  answers a request by what the request is: within one run, equal requests get
  equal answers. Every \<open>await\<close> is a step of one sequential run.
\<close>

record env =
  fetch :: "request \<Rightarrow> response"
  hashPassword :: "string \<Rightarrow> string"
  confirm :: bool
  prompt :: "string option"
  now_iso :: string
  image_stamp :: string
  video_stamp :: string

definition emit :: "event \<Rightarrow> world \<Rightarrow> world" where
  "emit ev w = w\<lparr>events := events w @ [ev]\<rparr>"

definition setItem :: "string \<Rightarrow> jstext \<Rightarrow> world \<Rightarrow> world" where
  "setItem k t w = w\<lparr>localStorage := (localStorage w)(k \<mapsto> t)\<rparr>"

section \<open>getSupabaseCredentials\<close>

text \<open>
  The public configuration object is truthy where its properties are read, so these
  reads cannot throw. In the \<open>try\<close> block, \<open>settings.url\<close> throws for the text
  \<open>null\<close>, before either variable is assigned.
\<close>

definition getSupabaseCredentials :: "world \<Rightarrow> jsval \<times> jsval" where
  "getSupabaseCredentials w =
     (let url = SB_URL w; key = SB_KEY w in
      if \<not> truthy url \<or> \<not> truthy key then
        (if truthy (SUPABASE_PUBLIC_CONFIG w) then
           (js_prop (SUPABASE_PUBLIC_CONFIG w) ''URL'',
            js_prop (SUPABASE_PUBLIC_CONFIG w) ''ANON_KEY'')
         else
           (case localStorage w ''supabaseSyncSettings'' of
              None \<Rightarrow> (url, key)
            | Some stored \<Rightarrow>
                (if text_truthy stored then
                   (case JSON_parse stored of
                      Inl e \<Rightarrow> (url, key)
                    | Inr settings \<Rightarrow>
                        (if nullish settings then (url, key)
                         else (js_prop settings ''url'', js_prop settings ''key'')))
                 else (url, key))))
      else (url, key))"

text \<open>The test \<open>!url || !key\<close> that every store operation makes on the result.\<close>

definition local_mode :: "world \<Rightarrow> bool" where
  "local_mode w = (case getSupabaseCredentials w of (url, key) \<Rightarrow> \<not> truthy url \<or> \<not> truthy key)"

section \<open>The store operations\<close>

text \<open>
  \<open>stored ? JSON.parse(stored) : []\<close> in \<open>getNews\<close>, and
  \<open>JSON.parse(localStorage.getItem('mh_news_data') || '[]')\<close> in \<open>saveNews\<close> and
  \<open>deleteNews\<close>: the same value in both forms.
\<close>

definition stored_news :: "world \<Rightarrow> js_error + jsval" where
  "stored_news w =
     (case localStorage w ''mh_news_data'' of
        None \<Rightarrow> Inr (JArr [])
      | Some stored \<Rightarrow> (if text_truthy stored then JSON_parse stored else Inr (JArr [])))"

text \<open>\<open>url.replace(/\/$/, '')\<close>: only a string has the method.\<close>

definition strip_slash :: "jsval \<Rightarrow> js_error + string" where
  "strip_slash url =
     (case url of
        JStr s \<Rightarrow> Inr (if s \<noteq> [] \<and> last s = CHR ''/'' then butlast s else s)
      | _ \<Rightarrow> Inl TypeError)"

text \<open>The callback of \<open>data.map\<close> in \<open>getNews\<close>.\<close>

definition row_to_item :: "jsval \<Rightarrow> js_error + jsval" where
  "row_to_item item =
     (if nullish item then Inl TypeError
      else Inr (JObj
        [(''id'', js_prop item ''id''),
         (''title'', js_prop item ''title''),
         (''content'', js_prop item ''content''),
         (''author'', js_prop item ''author''),
         (''date'', js_prop item ''news_date''),
         (''image_url'', js_prop item ''image_url''),
         (''video_url'', js_prop item ''video_url''),
         (''link_url'', js_prop item ''link_url''),
         (''publisher_role'', js_prop item ''publisher_role'')]))"

text \<open>\<open>xs.map(f)\<close> with a callback that may throw: the first exception ends the call.\<close>

fun js_map :: "(jsval \<Rightarrow> js_error + jsval) \<Rightarrow> jsval list \<Rightarrow> js_error + jsval list" where
  "js_map f [] = Inr []"
| "js_map f (x # xs) =
     (case f x of
        Inl e \<Rightarrow> Inl e
      | Inr y \<Rightarrow> (case js_map f xs of Inl e \<Rightarrow> Inl e | Inr ys \<Rightarrow> Inr (y # ys)))"

text \<open>\<open>xs.filter(p)\<close>, likewise.\<close>

fun js_filter :: "(jsval \<Rightarrow> js_error + bool) \<Rightarrow> jsval list \<Rightarrow> js_error + jsval list" where
  "js_filter p [] = Inr []"
| "js_filter p (x # xs) =
     (case p x of
        Inl e \<Rightarrow> Inl e
      | Inr b \<Rightarrow>
          (case js_filter p xs of
             Inl e \<Rightarrow> Inl e
           | Inr ys \<Rightarrow> Inr (if b then x # ys else ys)))"

subsection \<open>getNews\<close>

text \<open>The request of \<open>getNews\<close>, from the address without its final slash.\<close>

definition list_request :: "string \<Rightarrow> jsval \<Rightarrow> request" where
  "list_request base key =
     Request GET (base @ ''/rest/v1/news?order=news_date.desc'') key [] NoBody"

text \<open>The \<open>try\<close> block of \<open>getNews\<close>; \<open>Inl\<close> is an exception that reaches its \<open>catch\<close>.\<close>

definition getNews_try :: "env \<Rightarrow> jsval \<Rightarrow> jsval \<Rightarrow> world \<Rightarrow> (js_error + jsval) \<times> world" where
  "getNews_try e url key w =
     (case strip_slash url of
        Inl err \<Rightarrow> (Inl err, w)
      | Inr base \<Rightarrow>
          (let req = list_request base key;
               w1 = emit (Fetch req) w
           in case fetch e req of
                Rejected \<Rightarrow> (Inl NetworkError, w1)
              | Response ok body \<Rightarrow>
                  (if ok then
                     (case JSON_parse body of
                        Inl err \<Rightarrow> (Inl err, w1)
                      | Inr data \<Rightarrow>
                          (case data of
                             JArr rows \<Rightarrow>
                               (case js_map row_to_item rows of
                                  Inl err \<Rightarrow> (Inl err, w1)
                                | Inr items \<Rightarrow> (Inr (JArr items), w1))
                           | _ \<Rightarrow> (Inl TypeError, w1)))
                   else (Inl FetchFailed, emit (ConsoleError ''News: Failed to fetch'') w1))))"

definition getNews :: "env \<Rightarrow> world \<Rightarrow> (js_error + jsval) \<times> world" where
  "getNews e w =
     (case getSupabaseCredentials w of
        (url, key) \<Rightarrow>
          (if \<not> truthy url \<or> \<not> truthy key then
             (let w1 = emit (ConsoleWarn ''News: Supabase not configured. Using local storage.'') w
              in (stored_news w1, w1))
           else
             (case getNews_try e url key w of
                (Inr items, w1) \<Rightarrow> (Inr items, w1)
              | (Inl err, w1) \<Rightarrow>
                  (let w2 = emit (ConsoleError ''News: Network error'') w1
                   in (stored_news w2, w2)))))"

subsection \<open>saveNews\<close>

text \<open>The payload and the request of \<open>saveNews\<close>; the item is not \<open>null\<close> here.\<close>

definition save_payload :: "jsval \<Rightarrow> jsval" where
  "save_payload newsItem = JObj
     [(''title'', js_prop newsItem ''title''),
      (''content'', js_prop newsItem ''content''),
      (''author'', js_prop newsItem ''author''),
      (''news_date'', js_prop newsItem ''date''),
      (''image_url'', js_prop newsItem ''image_url''),
      (''video_url'', js_prop newsItem ''video_url''),
      (''link_url'', js_prop newsItem ''link_url''),
      (''publisher_role'', js_prop newsItem ''publisher_role'')]"

definition save_request :: "string \<Rightarrow> jsval \<Rightarrow> jsval \<Rightarrow> request" where
  "save_request base key newsItem =
     Request POST (base @ ''/rest/v1/news'') key
       [(''Content-Type'', ''application/json''), (''Prefer'', ''return=minimal'')]
       (JsonBody (JSON_stringify (save_payload newsItem)))"

text \<open>The \<open>try\<close> block of \<open>saveNews\<close>.\<close>

definition saveNews_try :: "env \<Rightarrow> jsval \<Rightarrow> jsval \<Rightarrow> jsval \<Rightarrow> world \<Rightarrow> (js_error + bool) \<times> world" where
  "saveNews_try e url key newsItem w =
     (case strip_slash url of
        Inl err \<Rightarrow> (Inl err, w)
      | Inr base \<Rightarrow>
          (if nullish newsItem then (Inl TypeError, w)
           else
             (let req = save_request base key newsItem;
                  w1 = emit (Fetch req) w
              in case fetch e req of
                   Rejected \<Rightarrow> (Inl NetworkError, w1)
                 | Response ok body \<Rightarrow>
                     (if ok then (Inr True, w1)
                      else (Inr False, emit (Alert (ErrorSavingToCloud body)) w1)))))"

definition saveNews :: "env \<Rightarrow> jsval \<Rightarrow> world \<Rightarrow> (js_error + bool) \<times> world" where
  "saveNews e newsItem w =
     (case getSupabaseCredentials w of
        (url, key) \<Rightarrow>
          (if \<not> truthy url \<or> \<not> truthy key then
             (case stored_news w of
                Inl err \<Rightarrow> (Inl err, w)
              | Inr current \<Rightarrow>
                  (case current of
                     JArr items \<Rightarrow>
                       (Inr True,
                        setItem ''mh_news_data'' (JSON_stringify (JArr (items @ [newsItem]))) w)
                   | _ \<Rightarrow> (Inl TypeError, w)))
           else
             (case saveNews_try e url key newsItem w of
                (Inr b, w1) \<Rightarrow> (Inr b, w1)
              | (Inl err, w1) \<Rightarrow>
                  (Inr False, emit (Alert SaveNetworkError) (emit (ConsoleException err) w1)))))"

subsection \<open>renderNewsAdmin\<close>

text \<open>
  The admin list is rebuilt from a fresh \<open>getNews\<close>, one card for each item. What
  the cards look like is not part of this development; whether building them throws
  is. A value has no string form when it is an object with an own \<open>toString\<close>
  property (which is no function here), or an array with such an element: then
  \<open>v.toString()\<close>, a template literal, string concatenation and \<open>new Date(v)\<close> all
  throw.
\<close>

fun no_string_form :: "jsval \<Rightarrow> bool"
  and no_string_form_elems :: "jsval list \<Rightarrow> bool" where
  "no_string_form (JObj fs) = (map_of fs ''toString'' \<noteq> None)"
| "no_string_form (JArr xs) = no_string_form_elems xs"
| "no_string_form JUndefined = False"
| "no_string_form JNull = False"
| "no_string_form (JBool b) = False"
| "no_string_form (JNum n) = False"
| "no_string_form (JStr s) = False"
| "no_string_form_elems [] = False"
| "no_string_form_elems (x # xs) = (no_string_form x \<or> no_string_form_elems xs)"

text \<open>
  \<open>createNewsCardHtml(item, true)\<close>. Reading \<open>item.video_url\<close> throws on \<open>null\<close> and
  \<open>undefined\<close>. Then the card converts to a string, each only when it is truthy:
  \<open>video_url\<close> and \<open>image_url\<close> (\<open>text.toString()\<close> in \<open>escapeHtml\<close>), \<open>link_url\<close> (the
  test of the pattern, the concatenation, \<open>escapeHtml\<close>), \<open>title\<close> (\<open>escapeHtml\<close>),
  \<open>date\<close> (\<open>new Date\<close> in \<open>formatDate\<close>), \<open>content\<close> (\<open>escapeHtml\<close> in
  \<open>formatContent\<close>) and \<open>item.author || 'Admin'\<close> (\<open>escapeHtml\<close>); and it converts
  \<open>id\<close> in the template literal of the delete button. A value without string
  form is truthy, so the card throws exactly when one of the eight has no string
  form.
\<close>

definition createNewsCardHtml :: "jsval \<Rightarrow> js_error + unit" where
  "createNewsCardHtml item =
     (if nullish item then Inl TypeError
      else if list_ex (\<lambda>k. no_string_form (js_prop item k))
                [''video_url'', ''image_url'', ''link_url'', ''id'', ''title'', ''date'',
                 ''content'', ''author'']
        then Inl TypeError
      else Inr ())"

text \<open>\<open>xs.forEach(f)\<close> with a callback that may throw.\<close>

fun js_forEach :: "(jsval \<Rightarrow> js_error + unit) \<Rightarrow> jsval list \<Rightarrow> js_error + unit" where
  "js_forEach f [] = Inr ()"
| "js_forEach f (x # xs) = (case f x of Inl e \<Rightarrow> Inl e | Inr u \<Rightarrow> js_forEach f xs)"

text \<open>
  The part of \<open>renderNewsAdmin\<close> after \<open>getNews\<close>: \<open>newsItems.length === 0\<close> shows the
  empty state and returns, otherwise \<open>newsItems.forEach\<close> builds the cards. Reading
  \<open>length\<close> throws on \<open>null\<close>; a string has a length and no \<open>forEach\<close>; an object
  has the \<open>length\<close> that it holds as a property and no \<open>forEach\<close> that is a function;
  a number and a boolean have neither.
\<close>

definition render_cards :: "jsval \<Rightarrow> js_error + unit" where
  "render_cards newsItems =
     (case newsItems of
        JArr items \<Rightarrow> js_forEach createNewsCardHtml items
      | JStr s \<Rightarrow> (if s = [] then Inr () else Inl TypeError)
      | JObj fs \<Rightarrow> (if js_prop newsItems ''length'' = JNum 0 then Inr () else Inl TypeError)
      | _ \<Rightarrow> Inl TypeError)"

text \<open>
  \<open>renderNewsAdmin\<close>. The writes to the page after a complete render are one event
  that carries the listing; an exception of \<open>getNews\<close> or of the cards leaves the
  function. The handlers below are registered only on a page that has the list
  container.
\<close>

definition renderNewsAdmin :: "env \<Rightarrow> world \<Rightarrow> (js_error + unit) \<times> world" where
  "renderNewsAdmin e w =
     (case getNews e w of
        (Inl err, w1) \<Rightarrow> (Inl err, w1)
      | (Inr newsItems, w1) \<Rightarrow>
          (case render_cards newsItems of
             Inl err \<Rightarrow> (Inl err, w1)
           | Inr u \<Rightarrow> (Inr (), emit (RenderedAdmin newsItems) w1)))"

text \<open>\<open>renderNewsAdmin();\<close> without \<open>await\<close>: its exception reaches nobody.\<close>

definition renderNewsAdmin_detached :: "env \<Rightarrow> world \<Rightarrow> world" where
  "renderNewsAdmin_detached e w = snd (renderNewsAdmin e w)"

subsection \<open>deleteNews\<close>

text \<open>The callback of \<open>current.filter\<close>: \<open>item.id.toString() !== id.toString()\<close>.\<close>

definition id_differs :: "jsval \<Rightarrow> jsval \<Rightarrow> js_error + bool" where
  "id_differs the_id item =
     (case get_prop item ''id'' of
        Inl err \<Rightarrow> Inl err
      | Inr item_id \<Rightarrow>
          (case call_toString item_id of
             Inl err \<Rightarrow> Inl err
           | Inr a \<Rightarrow>
               (case call_toString the_id of
                  Inl err \<Rightarrow> Inl err
                | Inr b \<Rightarrow> Inr (a \<noteq> b))))"

definition delete_request :: "string \<Rightarrow> jsval \<Rightarrow> string \<Rightarrow> request" where
  "delete_request base key id_text =
     Request DELETE (base @ ''/rest/v1/news?id=eq.'' @ id_text) key [] NoBody"

text \<open>The \<open>try\<close> block of \<open>deleteNews\<close>.\<close>

definition deleteNews_try :: "env \<Rightarrow> jsval \<Rightarrow> jsval \<Rightarrow> jsval \<Rightarrow> world \<Rightarrow> (js_error + unit) \<times> world" where
  "deleteNews_try e url key the_id w =
     (case strip_slash url of
        Inl err \<Rightarrow> (Inl err, w)
      | Inr base \<Rightarrow>
          (case to_String the_id of
             Inl err \<Rightarrow> (Inl err, w)
           | Inr id_text \<Rightarrow>
               (let req = delete_request base key id_text;
                    w1 = emit (Fetch req) w
                in case fetch e req of
                     Rejected \<Rightarrow> (Inl NetworkError, w1)
                   | Response ok body \<Rightarrow>
                       (if ok then (Inr (), renderNewsAdmin_detached e w1)
                        else (Inr (), emit (Alert (ErrorDeleting body)) w1)))))"

definition deleteNews :: "env \<Rightarrow> jsval \<Rightarrow> world \<Rightarrow> (js_error + unit) \<times> world" where
  "deleteNews e the_id w =
     (if \<not> confirm e then (Inr (), w)
      else
        (case getSupabaseCredentials w of
           (url, key) \<Rightarrow>
             (if \<not> truthy url \<or> \<not> truthy key then
                (case stored_news w of
                   Inl err \<Rightarrow> (Inl err, w)
                 | Inr current \<Rightarrow>
                     (case current of
                        JArr items \<Rightarrow>
                          (case js_filter (id_differs the_id) items of
                             Inl err \<Rightarrow> (Inl err, w)
                           | Inr kept \<Rightarrow>
                               (Inr (),
                                renderNewsAdmin_detached e
                                  (setItem ''mh_news_data'' (JSON_stringify (JArr kept)) w)))
                      | _ \<Rightarrow> (Inl TypeError, w)))
              else
                (case deleteNews_try e url key the_id w of
                   (Inr u, w1) \<Rightarrow> (Inr (), w1)
                 | (Inl err, w1) \<Rightarrow>
                     (Inr (), emit (Alert DeleteNetworkError) (emit (ConsoleException err) w1))))))"

subsection \<open>uploadFile\<close>

text \<open>\<open>file.name.split('.').pop()\<close>: what follows the last dot, or the whole name.\<close>

definition file_ext :: "string \<Rightarrow> string" where
  "file_ext name = rev (takeWhile (\<lambda>c. c \<noteq> CHR ''.'') (rev name))"

definition upload_request :: "string \<Rightarrow> jsval \<Rightarrow> string \<Rightarrow> js_file \<Rightarrow> request" where
  "upload_request base key filePath f =
     Request POST (base @ ''/storage/v1/object/news-images/'' @ filePath) key
       [(''Content-Type'',
         if file_type f \<noteq> [] then file_type f else ''application/octet-stream''),
        (''x-upsert'', ''true'')]
       (FileBody f)"

definition uploadFile :: "env \<Rightarrow> string \<Rightarrow> js_file \<Rightarrow> world \<Rightarrow> string option \<times> world" where
  "uploadFile e stamp f w =
     (case getSupabaseCredentials w of
        (url, key) \<Rightarrow>
          (if \<not> truthy url \<or> \<not> truthy key then (None, w)
           else
             (let filePath = stamp @ ''.'' @ file_ext (file_name f) in
              case strip_slash url of
                Inl err \<Rightarrow> (None, emit (ConsoleError ''Upload error'') w)
              | Inr base \<Rightarrow>
                  (let req = upload_request base key filePath f;
                       w1 = emit (Fetch req) w
                   in case fetch e req of
                        Rejected \<Rightarrow> (None, emit (ConsoleError ''Upload error'') w1)
                      | Response ok body \<Rightarrow>
                          (if ok then
                             (Some (base @ ''/storage/v1/object/public/news-images/'' @ filePath), w1)
                           else (None, emit (ConsoleError ''Upload failed'') w1))))))"

section \<open>The publish handler\<close>

text \<open>
  The fields of the admin form when the button is clicked: the value of each input
  (\<open>None\<close> when the page lacks the element) and the first chosen file of each file
  input. The button itself exists, since the handler is its click listener.
\<close>

record form =
  news_title :: "string option"
  news_content :: "string option"
  news_link :: "string option"
  publish_pin :: "string option"
  news_image :: "js_file option"
  news_video :: "js_file option"

text \<open>
  \<open>String.prototype.trim\<close>. Of the white space and line terminators that \<open>trim\<close>
  strips, seven are code units below 256: tab, line feed, vertical tab, form feed,
  carriage return, space and the no-break space U+00A0. The others (U+1680, U+2000
  to U+200A, U+2028, U+2029, U+202F, U+205F, U+3000, U+FEFF) are no values of
  \<open>char\<close>, so no string of this development holds one of them.
\<close>

definition is_space :: "char \<Rightarrow> bool" where
  "is_space c =
     (c \<in> set [CHR 0x09, CHR 0x0A, CHR 0x0B, CHR 0x0C, CHR 0x0D, CHR 0x20, CHR 0xA0])"

definition trim :: "string \<Rightarrow> string" where
  "trim s = rev (dropWhile is_space (rev (dropWhile is_space s)))"

text \<open>\<open>/^https?:\/\//i.test(s)\<close>: the pattern is given in lower case.\<close>

definition lower_ascii :: "char \<Rightarrow> char" where
  "lower_ascii c =
     (case map_of (zip ''ABCDEFGHIJKLMNOPQRSTUVWXYZ'' ''abcdefghijklmnopqrstuvwxyz'') c of
        Some l \<Rightarrow> l
      | None \<Rightarrow> c)"

fun ci_prefix :: "string \<Rightarrow> string \<Rightarrow> bool" where
  "ci_prefix [] s = True"
| "ci_prefix (p # ps) [] = False"
| "ci_prefix (p # ps) (c # cs) = (lower_ascii c = p \<and> ci_prefix ps cs)"

definition has_scheme :: "string \<Rightarrow> bool" where
  "has_scheme s = (ci_prefix ''http://'' s \<or> ci_prefix ''https://'' s)"

text \<open>The auto-fix of the link, in the handler and again in the card template.\<close>

definition fix_link :: "string \<Rightarrow> string" where
  "fix_link link_url =
     (if link_url \<noteq> [] \<and> \<not> has_scheme link_url then ''https://'' @ link_url else link_url)"

datatype role = Admin | User

fun role_name :: "role \<Rightarrow> string" where
  "role_name Admin = ''admin''"
| "role_name User = ''user''"

fun authorName :: "role \<Rightarrow> string" where
  "authorName Admin = ''Admin''"
| "authorName User = ''User''"

text \<open>
  AUTH CHECK: \<open>hashedPin === window.ADMIN_PASSWORD_HASH\<close>, then
  \<open>hashedPin === window.USER_PASSWORD_HASH\<close>. The digest is a string, so strict
  equality holds exactly when the global is the same string.
\<close>

definition auth_check :: "env \<Rightarrow> world \<Rightarrow> string \<Rightarrow> role option" where
  "auth_check e w pin =
     (let hashedPin = JStr (hashPassword e pin) in
      if hashedPin = ADMIN_PASSWORD_HASH w then Some Admin
      else if hashedPin = USER_PASSWORD_HASH w then Some User
      else None)"

text \<open>
  \<open>existingNews.filter(n => n.publisher_role === 'user').length\<close>; only an array has
  \<open>filter\<close>, and the callback throws on an element that is \<open>null\<close>.
\<close>

definition is_user_post :: "jsval \<Rightarrow> js_error + bool" where
  "is_user_post n =
     (case get_prop n ''publisher_role'' of
        Inl err \<Rightarrow> Inl err
      | Inr r \<Rightarrow> Inr (r = JStr ''user''))"

definition count_user_posts :: "jsval \<Rightarrow> js_error + nat" where
  "count_user_posts existingNews =
     (case existingNews of
        JArr items \<Rightarrow>
          (case js_filter is_user_post items of
             Inl err \<Rightarrow> Inl err
           | Inr posts \<Rightarrow> Inr (length posts))
      | _ \<Rightarrow> Inl TypeError)"

text \<open>
  How a run of the handler ends. The source returns nothing; the constructors name
  its exits: an element of the form is missing, the three alerts before the limit
  check, the limit alert, the two results of \<open>saveNews\<close>, and an exception that
  leaves the handler.
\<close>

datatype publish_result =
    NoForm
  | Invalid
  | NoPin
  | Unauthenticated
  | QuotaExceeded nat nat
  | Published
  | PersistFailed
  | Raised js_error

text \<open>LIMIT CHECK FOR USER: \<open>Some n\<close> is the early return with \<open>n\<close> user posts.\<close>

definition limit_check :: "env \<Rightarrow> role \<Rightarrow> world \<Rightarrow> nat option \<times> world" where
  "limit_check e r w =
     (if r = User then
        (case getNews e w of
           (Inl err, w1) \<Rightarrow> (None, w1)
         | (Inr existingNews, w1) \<Rightarrow>
             (case count_user_posts existingNews of
                Inl err \<Rightarrow> (None, w1)
              | Inr userPosts \<Rightarrow>
                  (if userPosts \<ge> 5 then
                     (Some userPosts, emit (Alert (UserLimitReached userPosts 5)) w1)
                   else (None, w1))))
      else (None, w))"

text \<open>The rest of the handler, from \<open>Handle Files\<close> on.\<close>

definition upload_and_save :: "env \<Rightarrow> form \<Rightarrow> string \<Rightarrow> string \<Rightarrow> string \<Rightarrow> role \<Rightarrow> world \<Rightarrow> publish_result \<times> world" where
  "upload_and_save e f title content link_url r w =
     (let (image_url, w1) =
            (case news_image f of
               None \<Rightarrow> ([], w)
             | Some imgFile \<Rightarrow>
                 (case uploadFile e (image_stamp e) imgFile w of
                    (None, w') \<Rightarrow> ([], w')
                  | (Some uploadedUrl, w') \<Rightarrow> (uploadedUrl, w')));
          (video_url, w2) =
            (case news_video f of
               None \<Rightarrow> ([], w1)
             | Some vidFile \<Rightarrow>
                 (case uploadFile e (video_stamp e) vidFile w1 of
                    (None, w') \<Rightarrow> ([], w')
                  | (Some uploadedUrl, w') \<Rightarrow> (uploadedUrl, w')));
          newItem = JObj
            [(''title'', JStr title),
             (''content'', JStr content),
             (''author'', JStr (authorName r)),
             (''date'', JStr (now_iso e)),
             (''image_url'', JStr image_url),
             (''video_url'', JStr video_url),
             (''link_url'', JStr link_url),
             (''publisher_role'', JStr (role_name r))]
      in case saveNews e newItem w2 of
           (Inl err, w3) \<Rightarrow> (Raised err, w3)
         | (Inr success, w3) \<Rightarrow>
             (if success then
                (case renderNewsAdmin e w3 of
                   (Inl err, w4) \<Rightarrow> (Raised err, w4)
                 | (Inr u, w4) \<Rightarrow> (Published, emit (Alert NewsPublished) w4))
              else (PersistFailed, w3)))"

definition handleAddNews :: "env \<Rightarrow> form \<Rightarrow> world \<Rightarrow> publish_result \<times> world" where
  "handleAddNews e f w =
     (case (news_title f, news_content f, publish_pin f) of
        (Some title_value, Some content_value, Some pin_value) \<Rightarrow>
          (let title = trim title_value;
               content = trim content_value;
               link_url = fix_link (case news_link f of None \<Rightarrow> [] | Some v \<Rightarrow> trim v);
               pin = trim pin_value
           in if title = [] \<or> content = [] then (Invalid, emit (Alert PleaseFillTitleContent) w)
              else if pin = [] then (NoPin, emit (Alert PleaseEnterPin) w)
              else
                (case auth_check e w pin of
                   None \<Rightarrow> (Unauthenticated, emit (Alert IncorrectPin) w)
                 | Some r \<Rightarrow>
                     (case limit_check e r w of
                        (Some userPosts, w1) \<Rightarrow> (QuotaExceeded userPosts 5, w1)
                      | (None, w1) \<Rightarrow> upload_and_save e f title content link_url r w1)))
      | _ \<Rightarrow> (NoForm, w))"

section \<open>The clear-all handler\<close>





section \<open>The resolution order as the specification words it\<close>

text \<open>
  The three sources of the specification, each as a pair of endpoint and key, and
  the rule "the first source where both are present and non-empty, otherwise empty
  credentials". These follow the specification, not the code, and serve to
  compare the two.
\<close>

definition source_globals :: "world \<Rightarrow> jsval \<times> jsval" where
  "source_globals w = (SB_URL w, SB_KEY w)"

definition source_config :: "world \<Rightarrow> jsval \<times> jsval" where
  "source_config w =
     (js_prop (SUPABASE_PUBLIC_CONFIG w) ''URL'', js_prop (SUPABASE_PUBLIC_CONFIG w) ''ANON_KEY'')"

definition source_settings :: "world \<Rightarrow> jsval \<times> jsval" where
  "source_settings w =
     (case localStorage w ''supabaseSyncSettings'' of
        None \<Rightarrow> (JUndefined, JUndefined)
      | Some stored \<Rightarrow>
          (case JSON_parse stored of
             Inl e \<Rightarrow> (JUndefined, JUndefined)
           | Inr settings \<Rightarrow> (js_prop settings ''url'', js_prop settings ''key'')))"

definition qualifies :: "jsval \<times> jsval \<Rightarrow> bool" where
  "qualifies c = (truthy (fst c) \<and> truthy (snd c))"

definition resolve_spec :: "world \<Rightarrow> jsval \<times> jsval" where
  "resolve_spec w =
     (if qualifies (source_globals w) then source_globals w
      else if qualifies (source_config w) then source_config w
      else if qualifies (source_settings w) then source_settings w
      else (JUndefined, JUndefined))"

section \<open>Example states\<close>

text \<open>
  A page with no injected globals, a given public configuration object, and a
  settings blob that holds an endpoint and a key.
\<close>

definition settings_world :: "jsval \<Rightarrow> world" where
  "settings_world cfg =
     \<lparr>SB_URL = JUndefined, SB_KEY = JUndefined, SUPABASE_PUBLIC_CONFIG = cfg,
      ADMIN_PASSWORD_HASH = JStr ''a1'', USER_PASSWORD_HASH = JStr ''u1'',
      localStorage = [''supabaseSyncSettings'' \<mapsto>
        Json (JObj [(''url'', JStr ''https://db.example.co''), (''key'', JStr ''k1'')])],
      events = []\<rparr>"

text \<open>
  A page without any credentials (local-fallback mode) and a page with injected
  globals (remote mode); the argument is what the slot \<open>mh_news_data\<close> holds.
\<close>

definition local_world :: "jstext option \<Rightarrow> world" where
  "local_world slot =
     \<lparr>SB_URL = JUndefined, SB_KEY = JUndefined, SUPABASE_PUBLIC_CONFIG = JUndefined,
      ADMIN_PASSWORD_HASH = JStr ''a1'', USER_PASSWORD_HASH = JStr ''u1'',
      localStorage = (\<lambda>k. if k = ''mh_news_data'' then slot else None),
      events = []\<rparr>"

definition remote_world :: "jstext option \<Rightarrow> world" where
  "remote_world slot =
     \<lparr>SB_URL = JStr ''https://db.example.co/'', SB_KEY = JStr ''k1'',
      SUPABASE_PUBLIC_CONFIG = JUndefined,
      ADMIN_PASSWORD_HASH = JStr ''a1'', USER_PASSWORD_HASH = JStr ''u1'',
      localStorage = (\<lambda>k. if k = ''mh_news_data'' then slot else None),
      events = []\<rparr>"

text \<open>
  A browser around them: the network answers as given, the digest of \<open>admin-pin\<close>
  is \<open>a1\<close> and that of \<open>user-pin\<close> is \<open>u1\<close>, and the user confirms and types the
  admin PIN when asked.
\<close>

definition test_env :: "(request \<Rightarrow> response) \<Rightarrow> env" where
  "test_env net =
     \<lparr>fetch = net,
      hashPassword = (\<lambda>pin. if pin = ''admin-pin'' then ''a1''
                            else if pin = ''user-pin'' then ''u1'' else ''x0''),
      confirm = True,
      prompt = Some ''admin-pin'',
      now_iso = ''2024-05-01T10:00:00.000Z'',
      image_stamp = ''1714557600000_abc123xyz'',
      video_stamp = ''1714557600500_def456uvw''\<rparr>"

text \<open>A network that is down, one that answers 500, and one that accepts everything.\<close>

definition net_down :: "request \<Rightarrow> response" where
  "net_down req = Rejected"

definition net_500 :: "request \<Rightarrow> response" where
  "net_500 req = Response False (Malformed ''Internal Server Error'')"

definition net_ok :: "request \<Rightarrow> response" where
  "net_ok req = Response True (Json (JArr []))"

text \<open>A stored item, as the publish handler builds it for a title and a role.\<close>

definition news_item :: "string \<Rightarrow> string \<Rightarrow> jsval" where
  "news_item title r = JObj
     [(''title'', JStr title),
      (''content'', JStr ''World''),
      (''author'', JStr (if r = ''admin'' then ''Admin'' else ''User'')),
      (''date'', JStr ''2024-05-01T10:00:00.000Z''),
      (''image_url'', JStr []),
      (''video_url'', JStr []),
      (''link_url'', JStr ''https://example.com''),
      (''publisher_role'', JStr r)]"

section \<open>Notions of the specification about stored items\<close>

text \<open>
  The values that \<open>JSON.parse\<close> can yield: \<open>undefined\<close> occurs nowhere in them.
\<close>

fun is_json :: "jsval \<Rightarrow> bool"
  and are_json :: "jsval list \<Rightarrow> bool"
  and fields_json :: "(string \<times> jsval) list \<Rightarrow> bool" where
  "is_json JUndefined = False"
| "is_json JNull = True"
| "is_json (JBool b) = True"
| "is_json (JNum n) = True"
| "is_json (JStr s) = True"
| "is_json (JArr xs) = are_json xs"
| "is_json (JObj fs) = fields_json fs"
| "are_json [] = True"
| "are_json (x # xs) = (is_json x \<and> are_json xs)"
| "fields_json [] = True"
| "fields_json (f # fs) = (is_json (snd f) \<and> fields_json fs)"

text \<open>
  The id of a stored item "as text after string conversion": \<open>None\<close> when the item
  is \<open>null\<close>, has no id, or its id has no string form.
\<close>

definition id_text :: "jsval \<Rightarrow> string option" where
  "id_text v = (case call_toString v of Inl err \<Rightarrow> None | Inr s \<Rightarrow> Some s)"

definition item_id_text :: "jsval \<Rightarrow> string option" where
  "item_id_text item = (if nullish item then None else id_text (js_prop item ''id''))"

text \<open>An item with the given id and title.\<close>

definition item_with_id :: "jsval \<Rightarrow> string \<Rightarrow> jsval" where
  "item_with_id i title = JObj
     [(''id'', i),
      (''title'', JStr title),
      (''content'', JStr ''World''),
      (''publisher_role'', JStr ''admin'')]"

section \<open>Notions of the specification about effects\<close>

text \<open>
  A request that changes the remote store is any request but a read; a quiet event
  is one that neither alerts the user nor changes the remote store.
\<close>

fun writes :: "event \<Rightarrow> bool" where
  "writes (Fetch (Request m a k h b)) = (m \<noteq> GET)"
| "writes ev = False"

fun is_alert :: "event \<Rightarrow> bool" where
  "is_alert (Alert n) = True"
| "is_alert ev = False"

definition quiet :: "event \<Rightarrow> bool" where
  "quiet ev = (\<not> is_alert ev \<and> \<not> writes ev)"

text \<open>The events that a step added to those of the state it started from.\<close>

definition new_events :: "world \<Rightarrow> world \<Rightarrow> event list" where
  "new_events w w' = drop (length (events w)) (events w')"

section \<open>Example drafts\<close>

text \<open>
  The admin form with a title and a PIN typed in, the content \<open>World\<close>, the link
  \<open>example.com\<close> and no files.
\<close>

definition draft_form :: "string \<Rightarrow> string \<Rightarrow> form" where
  "draft_form title pin =
     \<lparr>news_title = Some title, news_content = Some ''World'', news_link = Some ''example.com'',
      publish_pin = Some pin, news_image = None, news_video = None\<rparr>"

text \<open>A network on which reads fail and every other request succeeds.\<close>

fun net_read_down :: "request \<Rightarrow> response" where
  "net_read_down (Request m a k h b) = (if m = GET then Rejected else Response True (Malformed []))"

text \<open>Five stored items of the user role.\<close>

definition five_user_items :: "jsval list" where
  "five_user_items =
     [news_item ''U1'' ''user'', news_item ''U2'' ''user'', news_item ''U3'' ''user'',
      news_item ''U4'' ''user'', news_item ''U5'' ''user'']"

text \<open>The count of the quota rule: the items whose \<open>publisher_role\<close> is \<open>user\<close>.\<close>

definition user_posts :: "jsval list \<Rightarrow> nat" where
  "user_posts items = length (filter (\<lambda>item. js_prop item ''publisher_role'' = JStr ''user'') items)"

text \<open>The two alerts with which \<open>saveNews\<close> reports a failed save.\<close>

fun save_failure_alert :: "event \<Rightarrow> bool" where
  "save_failure_alert (Alert SaveNetworkError) = True"
| "save_failure_alert (Alert (ErrorSavingToCloud body)) = True"
| "save_failure_alert ev = False"


section \<open>Further notions for the amended claims\<close>

text \<open>
  The settings blob as far as the resolver can read it: present, not the empty
  text, and parsed to a value that is not \<open>null\<close>.
\<close>

definition readable_settings :: "world \<Rightarrow> jsval option" where
  "readable_settings w =
     (case localStorage w ''supabaseSyncSettings'' of
        None \<Rightarrow> None
      | Some stored \<Rightarrow>
          (if text_truthy stored then
             (case JSON_parse stored of
                Inl err \<Rightarrow> None
              | Inr settings \<Rightarrow> (if nullish settings then None else Some settings))
           else None))"

text \<open>A page with no globals and no configuration object, and a given settings blob.\<close>

definition blob_world :: "jstext option \<Rightarrow> world" where
  "blob_world blob =
     \<lparr>SB_URL = JUndefined, SB_KEY = JUndefined, SUPABASE_PUBLIC_CONFIG = JUndefined,
      ADMIN_PASSWORD_HASH = JStr ''a1'', USER_PASSWORD_HASH = JStr ''u1'',
      localStorage = (\<lambda>k. if k = ''supabaseSyncSettings'' then blob else None),
      events = []\<rparr>"


text \<open>
  The numbers of the safe range, on which the decimal notation is the string form
  of a number, and the values all of whose numbers lie in it.
\<close>

definition safe_number :: "int \<Rightarrow> bool" where
  "safe_number n = (- 9007199254740991 \<le> n \<and> n \<le> 9007199254740991)"

fun safe_numbers :: "jsval \<Rightarrow> bool"
  and safe_numbers_elems :: "jsval list \<Rightarrow> bool"
  and safe_numbers_fields :: "(string \<times> jsval) list \<Rightarrow> bool" where
  "safe_numbers (JNum n) = safe_number n"
| "safe_numbers (JArr xs) = safe_numbers_elems xs"
| "safe_numbers (JObj fs) = safe_numbers_fields fs"
| "safe_numbers JUndefined = True"
| "safe_numbers JNull = True"
| "safe_numbers (JBool b) = True"
| "safe_numbers (JStr s) = True"
| "safe_numbers_elems [] = True"
| "safe_numbers_elems (x # xs) = (safe_numbers x \<and> safe_numbers_elems xs)"
| "safe_numbers_fields [] = True"
| "safe_numbers_fields (f # fs) = (safe_numbers (snd f) \<and> safe_numbers_fields fs)"

section \<open>Basic facts\<close>

lemma JSON_parse_Inr [simp]: "JSON_parse t = Inr v \<longleftrightarrow> t = Json v"
  by (cases t) auto

lemma JSON_parse_Inl [simp]:
  "JSON_parse t = Inl err \<longleftrightarrow> (\<exists>s. t = Malformed s) \<and> err = SyntaxError"
  by (cases t) auto

lemma js_prop_nullish: "nullish v \<Longrightarrow> js_prop v k = JUndefined"
  by (cases v) simp_all

lemma emit_fields [simp]:
  "SB_URL (emit ev w) = SB_URL w"
  "SB_KEY (emit ev w) = SB_KEY w"
  "SUPABASE_PUBLIC_CONFIG (emit ev w) = SUPABASE_PUBLIC_CONFIG w"
  "ADMIN_PASSWORD_HASH (emit ev w) = ADMIN_PASSWORD_HASH w"
  "USER_PASSWORD_HASH (emit ev w) = USER_PASSWORD_HASH w"
  "localStorage (emit ev w) = localStorage w"
  "events (emit ev w) = events w @ [ev]"
  by (simp_all add: emit_def)

lemma setItem_fields [simp]:
  "SB_URL (setItem k t w) = SB_URL w"
  "SB_KEY (setItem k t w) = SB_KEY w"
  "SUPABASE_PUBLIC_CONFIG (setItem k t w) = SUPABASE_PUBLIC_CONFIG w"
  "ADMIN_PASSWORD_HASH (setItem k t w) = ADMIN_PASSWORD_HASH w"
  "USER_PASSWORD_HASH (setItem k t w) = USER_PASSWORD_HASH w"
  "localStorage (setItem k t w) = (localStorage w)(k \<mapsto> t)"
  "events (setItem k t w) = events w"
  by (simp_all add: setItem_def)

lemma credentials_emit [simp]: "getSupabaseCredentials (emit ev w) = getSupabaseCredentials w"
  by (simp add: getSupabaseCredentials_def Let_def)

lemma stored_news_emit [simp]: "stored_news (emit ev w) = stored_news w"
  by (simp add: stored_news_def)

lemma stored_news_storage: "localStorage w' = localStorage w \<Longrightarrow> stored_news w' = stored_news w"
  by (simp add: stored_news_def)

text \<open>What \<open>stored_news\<close> yields, by the content of the slot.\<close>

lemma stored_news_cases:
  "stored_news w =
     (case localStorage w ''mh_news_data'' of
        None \<Rightarrow> Inr (JArr [])
      | Some (Malformed s) \<Rightarrow> (if s = [] then Inr (JArr []) else Inl SyntaxError)
      | Some (Json v) \<Rightarrow> Inr v)"
  by (simp add: stored_news_def split: option.splits jstext.splits)

text \<open>\<open>getNews\<close> never writes to the store: it only adds events.\<close>

lemma getNews_try_storage [simp]:
  "localStorage (snd (getNews_try e url key w)) = localStorage w"
  by (simp add: getNews_try_def Let_def split: sum.splits response.splits jsval.splits)

lemma getNews_storage [simp]: "localStorage (snd (getNews e w)) = localStorage w"
proof -
  obtain url key where c: "getSupabaseCredentials w = (url, key)"
    by (cases "getSupabaseCredentials w")
  obtain r w1 where t: "getNews_try e url key w = (r, w1)"
    by (cases "getNews_try e url key w")
  have "localStorage w1 = localStorage w"
    using getNews_try_storage [of e url key w] t by simp
  then show ?thesis
    using c t by (cases r) (simp_all add: getNews_def Let_def)
qed

lemma renderNewsAdmin_storage [simp]:
  "localStorage (snd (renderNewsAdmin e w)) = localStorage w"
proof -
  obtain r w1 where g: "getNews e w = (r, w1)"
    by (cases "getNews e w")
  then have "localStorage w1 = localStorage w"
    using getNews_storage [of e w] by simp
  with g show ?thesis
    by (cases r) (simp_all add: renderNewsAdmin_def split: sum.splits)
qed

lemma renderNewsAdmin_detached_storage [simp]:
  "localStorage (renderNewsAdmin_detached e w) = localStorage w"
  by (simp add: renderNewsAdmin_detached_def)

text \<open>A callback that never throws makes \<open>js_filter\<close> the filter of lists.\<close>

lemma js_filter_total:
  "\<forall>x \<in> set xs. p x = Inr (q x) \<Longrightarrow> js_filter p xs = Inr (filter q xs)"
  by (induction xs) simp_all

text \<open>Serialising a parsed value and parsing it again gives the value back.\<close>

lemma json_norm_id:
  "is_json v \<Longrightarrow> json_norm v = v"
  "are_json xs \<Longrightarrow> json_norm_elems xs = xs"
  "fields_json fs \<Longrightarrow> json_norm_fields fs = fs"
proof (induction v and xs and fs rule: json_norm_json_norm_elems_json_norm_fields.induct)
  case (9 x xs)
  then show ?case by (cases x) simp_all
next
  case (11 f fs)
  then show ?case by (cases f; cases "snd f") simp_all
qed simp_all

lemma are_json_filter: "are_json xs \<Longrightarrow> are_json (filter q xs)"
  by (induction xs) simp_all

lemma are_json_append: "are_json (xs @ ys) = (are_json xs \<and> are_json ys)"
  by (induction xs) simp_all

lemma JSON_stringify_json: "is_json v \<Longrightarrow> JSON_stringify v = Json v"
  by (cases v) (simp_all add: JSON_stringify_def json_norm_id)

lemma credentials_setItem_news [simp]:
  "getSupabaseCredentials (setItem ''mh_news_data'' t w) = getSupabaseCredentials w"
  by (simp add: getSupabaseCredentials_def Let_def)

lemma stored_news_setItem [simp]:
  "stored_news (setItem ''mh_news_data'' t w) = (if text_truthy t then JSON_parse t else Inr (JArr []))"
  by (simp add: stored_news_def)

text \<open>On an item that has an id with a string form, the callback compares the two texts.\<close>

lemma id_differs_text:
  assumes "item_id_text item \<noteq> None" and "id_text the_id = Some t"
  shows "id_differs the_id item = Inr (item_id_text item \<noteq> Some t)"
  using assms
  by (auto simp: id_differs_def item_id_text_def id_text_def get_prop_def
      split: if_splits sum.splits)

text \<open>\<open>getNews\<close> adds only quiet events: console output and its one read request.\<close>

lemma getNews_try_events:
  "\<exists>evs. events (snd (getNews_try e url key w)) = events w @ evs \<and> list_all quiet evs"
  by (auto simp: getNews_try_def Let_def quiet_def list_request_def
      split: sum.splits response.splits jsval.splits)

lemma getNews_events:
  "\<exists>evs. events (snd (getNews e w)) = events w @ evs \<and> list_all quiet evs"
proof -
  obtain url key where c: "getSupabaseCredentials w = (url, key)"
    by (cases "getSupabaseCredentials w")
  obtain r w1 where t: "getNews_try e url key w = (r, w1)"
    by (cases "getNews_try e url key w")
  obtain evs where "events w1 = events w @ evs" "list_all quiet evs"
    using getNews_try_events [of e url key w] t by auto
  then show ?thesis
    using c t by (cases r) (auto simp: getNews_def Let_def quiet_def)
qed

lemma new_events_getNews: "list_all quiet (new_events w (snd (getNews e w)))"
  using getNews_events [of e w] by (auto simp: new_events_def)

lemma new_events_emit [simp]: "new_events w (emit ev w) = [ev]"
  by (simp add: new_events_def)

lemma new_events_self [simp]: "new_events w w = []"
  by (simp add: new_events_def)

text \<open>On a listing without \<open>null\<close> entries the count of the limit check is the count of the quota rule.\<close>

lemma count_user_posts_items:
  assumes "\<forall>item \<in> set items. \<not> nullish item"
  shows "count_user_posts (JArr items) = Inr (user_posts items)"
proof -
  from assms have "\<forall>item \<in> set items.
      is_user_post item = Inr (js_prop item ''publisher_role'' = JStr ''user'')"
    by (simp add: is_user_post_def get_prop_def)
  then have "js_filter is_user_post items
      = Inr (filter (\<lambda>item. js_prop item ''publisher_role'' = JStr ''user'') items)"
    by (rule js_filter_total)
  then show ?thesis
    by (simp add: count_user_posts_def user_posts_def)
qed

text \<open>The rest of the handler ends with the result of the save, never with the limit alert.\<close>

lemma upload_and_save_not_quota: "fst (upload_and_save e f t c l r w) \<noteq> QuotaExceeded n m"
  by (auto simp: upload_and_save_def Let_def split: prod.splits option.splits sum.splits)



section \<open>Credential resolution\<close>

text \<open>
  Claim C4, as stated: \<open>resolve()\<close> returns the credentials of the first of the three
  sources (globals, public configuration object, settings blob) in which endpoint
  and key are both present and non-empty, and empty credentials otherwise. The code
  differs where the configuration object exists and lacks a value: its values are
  returned as they are and the settings blob is not read.
\<close>

theorem resolve_counterexample:
  "getSupabaseCredentials (settings_world (JObj [(''URL'', JStr []), (''ANON_KEY'', JStr [])]))
     = (JStr [], JStr [])
   \<and> resolve_spec (settings_world (JObj [(''URL'', JStr []), (''ANON_KEY'', JStr [])]))
     = (JStr ''https://db.example.co'', JStr ''k1'')
   \<and> getSupabaseCredentials (settings_world (JObj [(''URL'', JStr []), (''ANON_KEY'', JStr [])]))
     \<noteq> resolve_spec (settings_world (JObj [(''URL'', JStr []), (''ANON_KEY'', JStr [])]))"
  by (simp add: getSupabaseCredentials_def resolve_spec_def settings_world_def source_globals_def
      source_config_def source_settings_def qualifies_def)

text \<open>
  Claim C4, amended: \<open>getSupabaseCredentials\<close> returns the globals when both are
  non-empty. Otherwise, when the public configuration object exists, it returns
  the object's \<open>URL\<close> and \<open>ANON_KEY\<close> whatever they are. Otherwise it returns the
  \<open>url\<close> and \<open>key\<close> of the settings blob when the blob is present, not empty and
  parses to a value that is not \<open>null\<close>, and the globals as they are when it is not.
  So the result is the first qualifying source in the stated order whenever the
  globals qualify, or the configuration object is absent, or that object supplies
  both values; and when no source qualifies, the result means local mode.
\<close>

theorem resolve_amended:
  "(qualifies (source_globals w) \<longrightarrow> getSupabaseCredentials w = source_globals w)
   \<and> (\<not> qualifies (source_globals w) \<and> truthy (SUPABASE_PUBLIC_CONFIG w) \<longrightarrow>
      getSupabaseCredentials w = source_config w)
   \<and> (\<not> qualifies (source_globals w) \<and> \<not> truthy (SUPABASE_PUBLIC_CONFIG w) \<longrightarrow>
      getSupabaseCredentials w =
        (case readable_settings w of
           None \<Rightarrow> source_globals w
         | Some settings \<Rightarrow> (js_prop settings ''url'', js_prop settings ''key'')))
   \<and> (qualifies (source_globals w) \<or> \<not> truthy (SUPABASE_PUBLIC_CONFIG w)
      \<or> qualifies (source_config w) \<longrightarrow>
      (if qualifies (resolve_spec w) then getSupabaseCredentials w = resolve_spec w
       else local_mode w))
   \<and> (\<not> qualifies (source_globals w) \<and> \<not> qualifies (source_config w)
      \<and> \<not> qualifies (source_settings w) \<longrightarrow> local_mode w)"
proof -
  have a: "qualifies (source_globals w) \<longrightarrow> getSupabaseCredentials w = source_globals w"
    by (simp add: getSupabaseCredentials_def source_globals_def qualifies_def)
  have b: "\<not> qualifies (source_globals w) \<and> truthy (SUPABASE_PUBLIC_CONFIG w) \<longrightarrow>
      getSupabaseCredentials w = source_config w"
    by (auto simp: getSupabaseCredentials_def source_config_def source_globals_def qualifies_def)
  have c: "\<not> qualifies (source_globals w) \<and> \<not> truthy (SUPABASE_PUBLIC_CONFIG w) \<longrightarrow>
      getSupabaseCredentials w =
        (case readable_settings w of
           None \<Rightarrow> source_globals w
         | Some settings \<Rightarrow> (js_prop settings ''url'', js_prop settings ''key''))"
    by (auto simp: getSupabaseCredentials_def readable_settings_def source_globals_def
        qualifies_def Let_def split: option.splits sum.splits)
  have nc: "\<not> truthy (SUPABASE_PUBLIC_CONFIG w) \<Longrightarrow> \<not> qualifies (source_config w)"
    by (cases "SUPABASE_PUBLIC_CONFIG w") (simp_all add: source_config_def qualifies_def)
  have d: "qualifies (source_globals w) \<or> \<not> truthy (SUPABASE_PUBLIC_CONFIG w)
      \<or> qualifies (source_config w) \<longrightarrow>
      (if qualifies (resolve_spec w) then getSupabaseCredentials w = resolve_spec w
       else local_mode w)"
  proof
    assume h: "qualifies (source_globals w) \<or> \<not> truthy (SUPABASE_PUBLIC_CONFIG w)
      \<or> qualifies (source_config w)"
    show "if qualifies (resolve_spec w) then getSupabaseCredentials w = resolve_spec w
      else local_mode w"
    proof (cases "qualifies (source_globals w)")
      case True
      then show ?thesis
        by (simp add: resolve_spec_def getSupabaseCredentials_def source_globals_def qualifies_def)
    next
      case g: False
      show ?thesis
      proof (cases "truthy (SUPABASE_PUBLIC_CONFIG w)")
        case True
        with g h have "qualifies (source_config w)" by simp
        with g True show ?thesis
          by (auto simp: resolve_spec_def getSupabaseCredentials_def source_globals_def
              source_config_def qualifies_def)
      next
        case False
        with g nc show ?thesis
          by (auto simp: resolve_spec_def getSupabaseCredentials_def source_globals_def
              local_mode_def source_settings_def qualifies_def js_prop_nullish Let_def
              split: option.splits sum.splits)
      qed
    qed
  qed
  have e: "\<not> qualifies (source_globals w) \<and> \<not> qualifies (source_config w)
      \<and> \<not> qualifies (source_settings w) \<longrightarrow> local_mode w"
  proof (cases "truthy (SUPABASE_PUBLIC_CONFIG w)")
    case True
    then show ?thesis
      using b by (auto simp: local_mode_def qualifies_def)
  next
    case False
    then show ?thesis
      by (auto simp: getSupabaseCredentials_def source_globals_def
          local_mode_def source_settings_def qualifies_def js_prop_nullish Let_def
          split: option.splits sum.splits)
  qed
  from a b c d e show ?thesis by blast
qed

theorem resolve_amended_witness:
  "getSupabaseCredentials (settings_world JUndefined)
     = (JStr ''https://db.example.co'', JStr ''k1'')
   \<and> getSupabaseCredentials (settings_world (JObj [(''URL'', JStr []), (''ANON_KEY'', JStr [])]))
     = (JStr [], JStr [])
   \<and> getSupabaseCredentials (blob_world (Some (Json (JObj [(''url'', JStr ''https://s.example'')]))))
     = (JStr ''https://s.example'', JUndefined)
   \<and> local_mode (blob_world (Some (Json (JObj [(''url'', JStr ''https://s.example'')]))))
   \<and> getSupabaseCredentials (blob_world (Some (Malformed ''{url:'')))
     = (JUndefined, JUndefined)"
  using resolve_amended [of "settings_world JUndefined"]
    resolve_amended [of "settings_world (JObj [(''URL'', JStr []), (''ANON_KEY'', JStr [])])"]
    resolve_amended [of "blob_world (Some (Json (JObj [(''url'', JStr ''https://s.example'')])))"]
    resolve_amended [of "blob_world (Some (Malformed ''{url:''))"]
  by (simp add: resolve_spec_def settings_world_def blob_world_def source_globals_def
      source_config_def source_settings_def qualifies_def readable_settings_def)

section \<open>Listing\<close>

text \<open>
  Claim C2, as stated: for every malformed text in the local slot, \<open>list\<close> in
  local-fallback mode treats the stored data as empty and returns normally. In the
  code \<open>JSON.parse\<close> of the slot stands outside any \<open>try\<close>, so the parse error
  leaves \<open>getNews\<close>.
\<close>

theorem getNews_malformed_counterexample:
  "local_mode (local_world (Some (Malformed ''{broken'')))
   \<and> fst (getNews (test_env net_down) (local_world (Some (Malformed ''{broken'')))) = Inl SyntaxError
   \<and> fst (getNews (test_env net_down) (local_world (Some (Malformed ''{broken'')))) \<noteq> Inr (JArr [])"
  by (simp add: local_mode_def getNews_def getSupabaseCredentials_def local_world_def
      stored_news_def emit_def)

text \<open>
  Claim C2, amended: in local-fallback mode \<open>getNews\<close> returns the empty sequence
  when the slot is absent or holds the empty text, returns the parsed value when
  the text parses, and raises the parse error when the text is non-empty and
  malformed; it never writes to the store.
\<close>

theorem getNews_local_amended:
  assumes "local_mode w"
  shows "fst (getNews e w) =
           (case localStorage w ''mh_news_data'' of
              None \<Rightarrow> Inr (JArr [])
            | Some (Malformed s) \<Rightarrow> (if s = [] then Inr (JArr []) else Inl SyntaxError)
            | Some (Json v) \<Rightarrow> Inr v)
         \<and> localStorage (snd (getNews e w)) = localStorage w"
proof -
  obtain url key where c: "getSupabaseCredentials w = (url, key)"
    by (cases "getSupabaseCredentials w")
  with assms have "\<not> truthy url \<or> \<not> truthy key"
    by (simp add: local_mode_def)
  with c have "fst (getNews e w) = stored_news w"
    by (auto simp: getNews_def Let_def)
  then show ?thesis
    by (simp add: stored_news_cases)
qed

theorem getNews_local_amended_witness:
  "fst (getNews (test_env net_down) (local_world (Some (Json (JArr [news_item ''Hi'' ''admin''])))))
     = Inr (JArr [news_item ''Hi'' ''admin''])
   \<and> fst (getNews (test_env net_down) (local_world None)) = Inr (JArr [])
   \<and> fst (getNews (test_env net_down) (local_world (Some (Malformed [])))) = Inr (JArr [])
   \<and> fst (getNews (test_env net_down) (local_world (Some (Malformed ''{broken'')))) = Inl SyntaxError"
  using getNews_local_amended [of "local_world (Some (Json (JArr [news_item ''Hi'' ''admin''])))" "test_env net_down"]
    getNews_local_amended [of "local_world None" "test_env net_down"]
    getNews_local_amended [of "local_world (Some (Malformed []))" "test_env net_down"]
    getNews_local_amended [of "local_world (Some (Malformed ''{broken''))" "test_env net_down"]
  by (simp add: local_mode_def getSupabaseCredentials_def local_world_def)

text \<open>
  Claim C7, as stated: for every \<open>list()\<close> call in remote mode whose request fails
  (a non-success status or a transport exception), \<open>list\<close> returns the locally stored
  sequence instead of raising. The fallback in the \<open>catch\<close> block parses the slot
  unguarded, so with a malformed slot the call raises.
\<close>

theorem getNews_remote_failure_counterexample:
  "\<not> local_mode (remote_world (Some (Malformed ''{broken'')))
   \<and> fetch (test_env net_500) (list_request ''https://db.example.co'' (JStr ''k1''))
       = Response False (Malformed ''Internal Server Error'')
   \<and> fst (getNews (test_env net_500) (remote_world (Some (Malformed ''{broken'')))) = Inl SyntaxError"
  by (simp add: local_mode_def getNews_def getNews_try_def getSupabaseCredentials_def
      remote_world_def stored_news_def emit_def test_env_def net_500_def strip_slash_def
      list_request_def)

text \<open>
  Claim C7, amended: in remote mode, when the request of \<open>getNews\<close> is rejected or
  answered with a non-success status, \<open>getNews\<close> returns what the local slot holds
  (the empty sequence when the slot is absent or empty, the parsed value when its
  text parses) and leaves the store as it is; only a non-empty malformed slot makes
  it raise the parse error.
\<close>

theorem getNews_remote_failure_amended:
  assumes c: "getSupabaseCredentials w = (url, key)" and u: "truthy url" and k: "truthy key"
    and b: "strip_slash url = Inr base"
    and f: "fetch e (list_request base key) = Rejected
            \<or> (\<exists>body. fetch e (list_request base key) = Response False body)"
  shows "fst (getNews e w) =
           (case localStorage w ''mh_news_data'' of
              None \<Rightarrow> Inr (JArr [])
            | Some (Malformed s) \<Rightarrow> (if s = [] then Inr (JArr []) else Inl SyntaxError)
            | Some (Json v) \<Rightarrow> Inr v)
         \<and> localStorage (snd (getNews e w)) = localStorage w"
proof -
  from b f have "\<exists>err w1. getNews_try e url key w = (Inl err, w1)"
    by (auto simp: getNews_try_def Let_def)
  then obtain err w1 where t: "getNews_try e url key w = (Inl err, w1)"
    by blast
  have "localStorage w1 = localStorage w"
    using getNews_try_storage [of e url key w] t by simp
  then have "stored_news w1 = stored_news w"
    by (rule stored_news_storage)
  with t c u k have "fst (getNews e w) = stored_news w"
    by (simp add: getNews_def Let_def)
  then show ?thesis
    by (simp add: stored_news_cases)
qed

theorem getNews_remote_failure_amended_witness:
  "fst (getNews (test_env net_500) (remote_world (Some (Json (JArr [news_item ''Hi'' ''admin''])))))
     = Inr (JArr [news_item ''Hi'' ''admin''])
   \<and> fst (getNews (test_env net_down) (remote_world None)) = Inr (JArr [])"
  using getNews_remote_failure_amended [of "remote_world (Some (Json (JArr [news_item ''Hi'' ''admin''])))"
      "JStr ''https://db.example.co/''" "JStr ''k1''" "''https://db.example.co''" "test_env net_500"]
    getNews_remote_failure_amended [of "remote_world None"
      "JStr ''https://db.example.co/''" "JStr ''k1''" "''https://db.example.co''" "test_env net_down"]
  by (simp add: getSupabaseCredentials_def remote_world_def strip_slash_def test_env_def
      net_500_def net_down_def)

section \<open>Saving\<close>

text \<open>
  Claim C8: for every \<open>save(item)\<close> call in remote mode that fails, that is, whose
  request is not answered with a success status (it is answered with another
  status, or an exception is thrown on the way), \<open>saveNews\<close> returns \<open>false\<close>, the
  last thing it does is one of its two failure alerts, and the local store is
  unchanged.
\<close>

theorem saveNews_remote_failure:
  assumes c: "getSupabaseCredentials w = (url, key)" and u: "truthy url" and k: "truthy key"
    and fails: "\<forall>base body. strip_slash url = Inr base \<and> \<not> nullish item
                  \<longrightarrow> fetch e (save_request base key item) \<noteq> Response True body"
  shows "fst (saveNews e item w) = Inr False
         \<and> localStorage (snd (saveNews e item w)) = localStorage w
         \<and> events (snd (saveNews e item w)) \<noteq> []
         \<and> save_failure_alert (last (events (snd (saveNews e item w))))"
proof (cases "strip_slash url")
  case (Inl err)
  with c u k show ?thesis
    by (simp add: saveNews_def saveNews_try_def)
next
  case (Inr base)
  show ?thesis
  proof (cases "nullish item")
    case True
    with Inr c u k show ?thesis
      by (simp add: saveNews_def saveNews_try_def)
  next
    case False
    with Inr fails have nt: "\<And>body. fetch e (save_request base key item) \<noteq> Response True body"
      by blast
    show ?thesis
    proof (cases "fetch e (save_request base key item)")
      case Rejected
      with False Inr c u k show ?thesis
        by (simp add: saveNews_def saveNews_try_def Let_def)
    next
      case (Response ok body)
      with nt have "\<not> ok" by auto
      with Response False Inr c u k show ?thesis
        by (simp add: saveNews_def saveNews_try_def Let_def)
    qed
  qed
qed

theorem saveNews_remote_failure_witness:
  "fst (saveNews (test_env net_500) (news_item ''Hi'' ''admin'') (remote_world None)) = Inr False
   \<and> localStorage (snd (saveNews (test_env net_500) (news_item ''Hi'' ''admin'') (remote_world None)))
       ''mh_news_data'' = None
   \<and> save_failure_alert (last (events (snd (saveNews (test_env net_500) (news_item ''Hi'' ''admin'')
         (remote_world None)))))
   \<and> fst (saveNews (test_env net_down) (news_item ''Hi'' ''admin'') (remote_world None)) = Inr False
   \<and> save_failure_alert (last (events (snd (saveNews (test_env net_down) (news_item ''Hi'' ''admin'')
         (remote_world None)))))"
  using saveNews_remote_failure [of "remote_world None" "JStr ''https://db.example.co/''" "JStr ''k1''"
      "news_item ''Hi'' ''admin''" "test_env net_500"]
    saveNews_remote_failure [of "remote_world None" "JStr ''https://db.example.co/''" "JStr ''k1''"
      "news_item ''Hi'' ''admin''" "test_env net_down"]
  by (simp add: getSupabaseCredentials_def remote_world_def test_env_def
      net_500_def net_down_def)

text \<open>
  Claim C3, as stated: an item saved through the local-fallback save and then
  listed has the same title, content and link as saved and carries a non-empty id.
  The local branch of \<open>saveNews\<close> appends the item as it is; nothing assigns an id,
  neither there nor in the publish handler that builds the item.
\<close>

theorem saveNews_local_roundtrip_counterexample:
  "fst (saveNews (test_env net_down) (news_item ''Hi'' ''admin'') (local_world None)) = Inr True
   \<and> fst (getNews (test_env net_down)
          (snd (saveNews (test_env net_down) (news_item ''Hi'' ''admin'') (local_world None))))
       = Inr (JArr [news_item ''Hi'' ''admin''])
   \<and> fst (getNews (test_env net_down)
          (snd (handleAddNews (test_env net_down) (draft_form ''Hi'' ''admin-pin'') (local_world None))))
       = Inr (JArr [news_item ''Hi'' ''admin''])
   \<and> js_prop (news_item ''Hi'' ''admin'') ''title'' = JStr ''Hi''
   \<and> js_prop (news_item ''Hi'' ''admin'') ''link_url'' = JStr ''https://example.com''
   \<and> js_prop (news_item ''Hi'' ''admin'') ''id'' = JUndefined"
  by (simp add: saveNews_def getNews_def getSupabaseCredentials_def local_world_def
      stored_news_def JSON_stringify_def news_item_def handleAddNews_def draft_form_def
      test_env_def trim_def is_space_def auth_check_def limit_check_def upload_and_save_def
      renderNewsAdmin_def render_cards_def createNewsCardHtml_def fix_link_def has_scheme_def
      lower_ascii_def Let_def emit_def setItem_def)

text \<open>
  Claim C3, amended: in local-fallback mode, with a slot that is absent, empty or
  holds a sequence, saving an item and then listing returns the stored sequence
  followed by the item exactly as it was saved: the same title, content and link,
  and an id only if the saved item already had one.
\<close>

theorem saveNews_local_roundtrip:
  assumes l: "local_mode w" and s: "stored_news w = Inr (JArr items)"
    and j: "are_json items" and i: "is_json item"
  shows "fst (saveNews e item w) = Inr True
         \<and> fst (getNews e' (snd (saveNews e item w))) = Inr (JArr (items @ [item]))"
proof -
  obtain url key where c: "getSupabaseCredentials w = (url, key)"
    by (cases "getSupabaseCredentials w")
  with l have m: "\<not> truthy url \<or> \<not> truthy key"
    by (simp add: local_mode_def)
  from j i have "is_json (JArr (items @ [item]))"
    by (simp add: are_json_append)
  then have t: "JSON_stringify (JArr (items @ [item])) = Json (JArr (items @ [item]))"
    by (rule JSON_stringify_json)
  from c m s t have sv: "saveNews e item w =
      (Inr True, setItem ''mh_news_data'' (Json (JArr (items @ [item]))) w)"
    by (auto simp: saveNews_def)
  from c m have "fst (getNews e' (setItem ''mh_news_data'' (Json (JArr (items @ [item]))) w))
      = Inr (JArr (items @ [item]))"
    by (auto simp: getNews_def Let_def)
  with sv show ?thesis by simp
qed

theorem saveNews_local_roundtrip_witness:
  "fst (getNews (test_env net_down)
          (snd (saveNews (test_env net_down) (news_item ''Hi'' ''admin'')
                 (local_world (Some (Json (JArr [item_with_id (JNum 7) ''Old''])))))))
     = Inr (JArr [item_with_id (JNum 7) ''Old'', news_item ''Hi'' ''admin''])"
  using saveNews_local_roundtrip [of "local_world (Some (Json (JArr [item_with_id (JNum 7) ''Old''])))"
      "[item_with_id (JNum 7) ''Old'']" "news_item ''Hi'' ''admin''" "test_env net_down" "test_env net_down"]
  by (simp add: local_mode_def getSupabaseCredentials_def local_world_def stored_news_def
      item_with_id_def news_item_def)

section \<open>Deleting one item\<close>

text \<open>
  Claim C9: \<open>deleteOne\<close> in local-fallback mode removes exactly the stored items
  whose id equals the given id as text. The code fails this on the stores that the
  module itself writes. Below, the store holds an item with the id \<open>"1"\<close>; the local
  save appends an item, which has no id; then \<open>deleteNews(1)\<close>, confirmed by the
  user, throws at \<open>item.id.toString()\<close> on the appended item, and the item with the
  id \<open>"1"\<close>, whose text is that of the given id, is still stored.
\<close>

theorem deleteNews_local_idless_item:
  "fst (saveNews (test_env net_down) (news_item ''Hi'' ''admin'')
          (local_world (Some (Json (JArr [item_with_id (JStr ''1'') ''Old''])))))
     = Inr True
   \<and> item_id_text (item_with_id (JStr ''1'') ''Old'') = id_text (JNum 1)
   \<and> fst (deleteNews (test_env net_down) (JNum 1)
          (snd (saveNews (test_env net_down) (news_item ''Hi'' ''admin'')
                 (local_world (Some (Json (JArr [item_with_id (JStr ''1'') ''Old''])))))))
     = Inl TypeError
   \<and> localStorage (snd (deleteNews (test_env net_down) (JNum 1)
          (snd (saveNews (test_env net_down) (news_item ''Hi'' ''admin'')
                 (local_world (Some (Json (JArr [item_with_id (JStr ''1'') ''Old'']))))))))
        ''mh_news_data''
     = Some (Json (JArr [item_with_id (JStr ''1'') ''Old'', news_item ''Hi'' ''admin'']))"
  by (simp add: saveNews_def deleteNews_def getSupabaseCredentials_def local_world_def
      stored_news_def news_item_def item_with_id_def test_env_def JSON_stringify_def
      id_differs_def get_prop_def call_toString_def dec_int_def dec_nat.simps
      item_id_text_def id_text_def setItem_def)

theorem deleteNews_local_idless_item_witness:
  "fst (deleteNews (test_env net_down) (JNum 1)
          (snd (saveNews (test_env net_down) (news_item ''Hi'' ''admin'')
                 (local_world (Some (Json (JArr [item_with_id (JStr ''1'') ''Old''])))))))
     \<noteq> Inr ()"
  using deleteNews_local_idless_item by simp

text \<open>
  What the local branch of \<open>deleteNews\<close> does on a store where every item has an id
  with a string form, the numbers being of the safe range: it stores the sequence
  without exactly those items whose id has the same text as the given id (a number
  matches the string of its digits), the other items unchanged and in order.
\<close>

lemma deleteNews_local_filter:
  assumes cf: "confirm e" and l: "local_mode w" and s: "stored_news w = Inr (JArr items)"
    and j: "are_json items"
    and ids: "\<forall>item \<in> set items. item_id_text item \<noteq> None"
    and t: "id_text the_id = Some t"
    and safe: "safe_numbers the_id" "safe_numbers_elems items"
  shows "fst (deleteNews e the_id w) = Inr ()
         \<and> localStorage (snd (deleteNews e the_id w)) =
             (localStorage w)(''mh_news_data'' \<mapsto>
                Json (JArr (filter (\<lambda>item. item_id_text item \<noteq> Some t) items)))"
proof -
  obtain url key where c: "getSupabaseCredentials w = (url, key)"
    by (cases "getSupabaseCredentials w")
  with l have m: "\<not> truthy url \<or> \<not> truthy key"
    by (simp add: local_mode_def)
  let ?kept = "filter (\<lambda>item. item_id_text item \<noteq> Some t) items"
  from ids t have "\<forall>item \<in> set items. id_differs the_id item = Inr (item_id_text item \<noteq> Some t)"
    by (simp add: id_differs_text)
  then have f: "js_filter (id_differs the_id) items = Inr ?kept"
    by (rule js_filter_total)
  from j have "is_json (JArr ?kept)"
    by (simp add: are_json_filter)
  then have st: "JSON_stringify (JArr ?kept) = Json (JArr ?kept)"
    by (rule JSON_stringify_json)
  from cf c m s f st show ?thesis
    by (auto simp: deleteNews_def)
qed

lemma deleteNews_local_filter_example:
  "localStorage (snd (deleteNews (test_env net_down) (JNum 7)
      (local_world (Some (Json (JArr [item_with_id (JStr ''7'') ''Old'', item_with_id (JNum 8) ''New''])))))) ''mh_news_data''
     = Some (Json (JArr [item_with_id (JNum 8) ''New'']))"
  using deleteNews_local_filter [of "test_env net_down"
      "local_world (Some (Json (JArr [item_with_id (JStr ''7'') ''Old'', item_with_id (JNum 8) ''New''])))"
      "[item_with_id (JStr ''7'') ''Old'', item_with_id (JNum 8) ''New'']" "JNum 7" "''7''"]
  by (simp add: local_mode_def getSupabaseCredentials_def local_world_def stored_news_def
      item_with_id_def test_env_def item_id_text_def id_text_def call_toString_def dec_int_def
      dec_nat.simps safe_number_def)

section \<open>Publishing\<close>

text \<open>
  Claim C6, as stated: the digest of the trimmed secret is compared with the admin
  digest first and the user digest second, and for every secret that matches
  neither, \<open>publish\<close> returns an authentication rejection regardless of the draft's
  validity, with no store write. In the code the draft is validated before the
  secret is looked at: a blank title with a wrong PIN ends with the validation
  alert, not with the authentication alert.
\<close>

theorem handleAddNews_unauthenticated_counterexample:
  "auth_check (test_env net_ok) (local_world None) (trim ''wrong-pin'') = None
   \<and> fst (handleAddNews (test_env net_ok) (draft_form ''   '' ''wrong-pin'') (local_world None)) = Invalid
   \<and> events (snd (handleAddNews (test_env net_ok) (draft_form ''   '' ''wrong-pin'') (local_world None)))
       = [Alert PleaseFillTitleContent]"
  by (simp add: handleAddNews_def auth_check_def draft_form_def local_world_def test_env_def
      trim_def is_space_def emit_def)

text \<open>
  Claim C6, amended: \<open>auth_check\<close> yields admin when the digest equals the admin
  digest, user when it equals the user digest only, and nothing otherwise. For a
  secret whose trimmed digest matches neither, the handler ends with the
  validation alert when the trimmed title or content is empty, with the PIN alert
  when the trimmed secret is empty, and with the authentication alert otherwise;
  in all three cases that alert is its only effect: nothing is stored and no
  request is sent.
\<close>

theorem handleAddNews_unauthenticated:
  assumes f: "news_title f = Some tv" "news_content f = Some cv" "publish_pin f = Some pv"
    and na: "JStr (hashPassword e (trim pv)) \<noteq> ADMIN_PASSWORD_HASH w"
    and nu: "JStr (hashPassword e (trim pv)) \<noteq> USER_PASSWORD_HASH w"
  shows "auth_check e w (trim pv) = None
         \<and> handleAddNews e f w =
             (if trim tv = [] \<or> trim cv = [] then (Invalid, emit (Alert PleaseFillTitleContent) w)
              else if trim pv = [] then (NoPin, emit (Alert PleaseEnterPin) w)
              else (Unauthenticated, emit (Alert IncorrectPin) w))
         \<and> localStorage (snd (handleAddNews e f w)) = localStorage w
         \<and> list_all (\<lambda>ev. \<not> writes ev) (new_events w (snd (handleAddNews e f w)))
         \<and> (ADMIN_PASSWORD_HASH w = JStr (hashPassword e p) \<longrightarrow> auth_check e w p = Some Admin)
         \<and> (ADMIN_PASSWORD_HASH w \<noteq> JStr (hashPassword e p)
              \<and> USER_PASSWORD_HASH w = JStr (hashPassword e p) \<longrightarrow> auth_check e w p = Some User)"
proof -
  from na nu have a: "auth_check e w (trim pv) = None"
    by (simp add: auth_check_def Let_def)
  with f have h: "handleAddNews e f w =
      (if trim tv = [] \<or> trim cv = [] then (Invalid, emit (Alert PleaseFillTitleContent) w)
       else if trim pv = [] then (NoPin, emit (Alert PleaseEnterPin) w)
       else (Unauthenticated, emit (Alert IncorrectPin) w))"
    by (simp add: handleAddNews_def Let_def)
  have "ADMIN_PASSWORD_HASH w = JStr (hashPassword e p) \<longrightarrow> auth_check e w p = Some Admin"
    by (simp add: auth_check_def Let_def)
  moreover have "ADMIN_PASSWORD_HASH w \<noteq> JStr (hashPassword e p)
      \<and> USER_PASSWORD_HASH w = JStr (hashPassword e p) \<longrightarrow> auth_check e w p = Some User"
    by (auto simp: auth_check_def Let_def)
  ultimately show ?thesis
    using a h by simp
qed

theorem handleAddNews_unauthenticated_witness:
  "handleAddNews (test_env net_ok) (draft_form ''Hi'' '' wrong-pin '') (remote_world None)
     = (Unauthenticated, emit (Alert IncorrectPin) (remote_world None))
   \<and> handleAddNews (test_env net_ok) (draft_form [CHR 0xA0, CHR 0x09] ''wrong-pin'') (remote_world None)
     = (Invalid, emit (Alert PleaseFillTitleContent) (remote_world None))
   \<and> auth_check (test_env net_ok) (remote_world None) ''admin-pin'' = Some Admin
   \<and> auth_check (test_env net_ok) (remote_world None) ''user-pin'' = Some User"
  using handleAddNews_unauthenticated [of "draft_form ''Hi'' '' wrong-pin ''" "''Hi''" "''World''"
      "'' wrong-pin ''" "test_env net_ok" "remote_world None" "''admin-pin''"]
    handleAddNews_unauthenticated [of "draft_form ''Hi'' '' wrong-pin ''" "''Hi''" "''World''"
      "'' wrong-pin ''" "test_env net_ok" "remote_world None" "''user-pin''"]
    handleAddNews_unauthenticated [of "draft_form [CHR 0xA0, CHR 0x09] ''wrong-pin''"
      "[CHR 0xA0, CHR 0x09]" "''World''" "''wrong-pin''" "test_env net_ok" "remote_world None"
      "''user-pin''"]
  by (simp add: draft_form_def test_env_def remote_world_def trim_def is_space_def)

text \<open>
  Claim C5, as stated: for every publish attempt with the user secret, if the
  listing contains \<open>n \<ge> 5\<close> items of the user role, the attempt is rejected with the
  count and the limit, and nothing is saved. Below, the local store holds \<open>null\<close>
  and five items of the user role: counting throws on \<open>null\<close>, the empty \<open>catch\<close>
  swallows it, and the sixth item is stored without any alert (the render after
  the save then throws on the \<open>null\<close> entry).
\<close>

theorem handleAddNews_quota_counterexample:
  "fst (getNews (test_env net_ok) (local_world (Some (Json (JArr (JNull # five_user_items))))))
     = Inr (JArr (JNull # five_user_items))
   \<and> user_posts (JNull # five_user_items) = 5
   \<and> fst (handleAddNews (test_env net_ok) (draft_form ''Sixth'' ''user-pin'')
          (local_world (Some (Json (JArr (JNull # five_user_items)))))) = Raised TypeError
   \<and> localStorage (snd (handleAddNews (test_env net_ok) (draft_form ''Sixth'' ''user-pin'')
          (local_world (Some (Json (JArr (JNull # five_user_items))))))) ''mh_news_data''
       = Some (Json (JArr (JNull # five_user_items @ [news_item ''Sixth'' ''user''])))
   \<and> \<not> list_ex is_alert (events (snd (handleAddNews (test_env net_ok)
          (draft_form ''Sixth'' ''user-pin'')
          (local_world (Some (Json (JArr (JNull # five_user_items))))))))"
  by (simp add: draft_form_def test_env_def local_world_def news_item_def
      five_user_items_def user_posts_def handleAddNews_def auth_check_def limit_check_def
      count_user_posts_def is_user_post_def get_prop_def
      trim_def is_space_def getNews_def getSupabaseCredentials_def stored_news_def
      upload_and_save_def saveNews_def renderNewsAdmin_def render_cards_def
      createNewsCardHtml_def emit_def setItem_def
      fix_link_def has_scheme_def lower_ascii_def Let_def JSON_stringify_def)

text \<open>
  Claim C5, amended: for a valid draft published with the user secret, when the
  listing is a sequence without \<open>null\<close> entries that holds \<open>n \<ge> 5\<close> items of the user
  role, the handler alerts that the limit is reached, with the count \<open>n\<close> and the
  limit 5, and returns: the store is unchanged and no write request is sent, so
  \<open>saveNews\<close> is not called. With the admin secret the handler goes straight on to
  the uploads and the save, and never ends with the limit alert.
\<close>

theorem handleAddNews_quota:
  assumes f: "news_title f = Some tv" "news_content f = Some cv" "publish_pin f = Some pv"
    and v: "trim tv \<noteq> []" "trim cv \<noteq> []" "trim pv \<noteq> []"
  shows "(JStr (hashPassword e (trim pv)) \<noteq> ADMIN_PASSWORD_HASH w
          \<and> JStr (hashPassword e (trim pv)) = USER_PASSWORD_HASH w
          \<and> fst (getNews e w) = Inr (JArr items)
          \<and> (\<forall>item \<in> set items. \<not> nullish item)
          \<and> 5 \<le> user_posts items
         \<longrightarrow> handleAddNews e f w =
               (QuotaExceeded (user_posts items) 5,
                emit (Alert (UserLimitReached (user_posts items) 5)) (snd (getNews e w)))
             \<and> localStorage (snd (handleAddNews e f w)) = localStorage w
             \<and> list_all (\<lambda>ev. \<not> writes ev) (new_events w (snd (handleAddNews e f w))))
         \<and> (JStr (hashPassword e (trim pv)) = ADMIN_PASSWORD_HASH w
         \<longrightarrow> handleAddNews e f w =
               upload_and_save e f (trim tv) (trim cv)
                 (fix_link (case news_link f of None \<Rightarrow> [] | Some v \<Rightarrow> trim v)) Admin w
             \<and> (\<forall>n m. fst (handleAddNews e f w) \<noteq> QuotaExceeded n m))"
proof (intro conjI impI)
  assume u: "JStr (hashPassword e (trim pv)) \<noteq> ADMIN_PASSWORD_HASH w
          \<and> JStr (hashPassword e (trim pv)) = USER_PASSWORD_HASH w
          \<and> fst (getNews e w) = Inr (JArr items)
          \<and> (\<forall>item \<in> set items. \<not> nullish item)
          \<and> 5 \<le> user_posts items"
  then have a: "auth_check e w (trim pv) = Some User"
    by (auto simp: auth_check_def Let_def)
  obtain w1 where g: "getNews e w = (Inr (JArr items), w1)"
    using u by (cases "getNews e w") auto
  from u have c: "count_user_posts (JArr items) = Inr (user_posts items)"
    by (simp add: count_user_posts_items)
  from g c u have lc: "limit_check e User w
      = (Some (user_posts items), emit (Alert (UserLimitReached (user_posts items) 5)) w1)"
    by (simp add: limit_check_def)
  from f v a lc g show h: "handleAddNews e f w =
      (QuotaExceeded (user_posts items) 5,
       emit (Alert (UserLimitReached (user_posts items) 5)) (snd (getNews e w)))"
    by (simp add: handleAddNews_def Let_def)
  show "localStorage (snd (handleAddNews e f w)) = localStorage w"
    by (simp add: h)
  obtain evs where ev: "events (snd (getNews e w)) = events w @ evs" "list_all quiet evs"
    using getNews_events [of e w] by blast
  then have "list_all (\<lambda>ev. \<not> writes ev) evs"
    by (simp add: list_all_iff quiet_def)
  with ev show "list_all (\<lambda>ev. \<not> writes ev) (new_events w (snd (handleAddNews e f w)))"
    by (simp add: h new_events_def)
next
  assume ad: "JStr (hashPassword e (trim pv)) = ADMIN_PASSWORD_HASH w"
  then have a: "auth_check e w (trim pv) = Some Admin"
    by (simp add: auth_check_def Let_def)
  from f v a show h: "handleAddNews e f w =
      upload_and_save e f (trim tv) (trim cv)
        (fix_link (case news_link f of None \<Rightarrow> [] | Some v \<Rightarrow> trim v)) Admin w"
    by (simp add: handleAddNews_def Let_def limit_check_def)
  show "\<forall>n m. fst (handleAddNews e f w) \<noteq> QuotaExceeded n m"
    by (simp add: h upload_and_save_not_quota)
qed

theorem handleAddNews_quota_witness:
  "handleAddNews (test_env net_ok) (draft_form ''Sixth'' ''user-pin'')
       (local_world (Some (Json (JArr five_user_items))))
     = (QuotaExceeded 5 5,
        emit (Alert (UserLimitReached 5 5))
          (emit (ConsoleWarn ''News: Supabase not configured. Using local storage.'')
            (local_world (Some (Json (JArr five_user_items))))))
   \<and> fst (handleAddNews (test_env net_ok) (draft_form ''Sixth'' ''admin-pin'')
       (local_world (Some (Json (JArr five_user_items))))) = Published"
  using handleAddNews_quota [of "draft_form ''Sixth'' ''user-pin''" "''Sixth''" "''World''" "''user-pin''"
      "test_env net_ok" "local_world (Some (Json (JArr five_user_items)))" five_user_items]
    handleAddNews_quota [of "draft_form ''Sixth'' ''admin-pin''" "''Sixth''" "''World''" "''admin-pin''"
      "test_env net_ok" "local_world (Some (Json (JArr five_user_items)))" five_user_items]
  by (simp add: draft_form_def test_env_def local_world_def five_user_items_def news_item_def
      trim_def is_space_def getNews_def getSupabaseCredentials_def stored_news_def user_posts_def
      upload_and_save_def saveNews_def renderNewsAdmin_def render_cards_def createNewsCardHtml_def
      JSON_stringify_def emit_def setItem_def
      fix_link_def has_scheme_def lower_ascii_def Let_def)

text \<open>
  Claim C10: when the count of the limit check cannot be computed in a user-role
  publish, because \<open>getNews\<close> raises or because counting over its result raises,
  the handler goes on exactly as after a passed check: it runs the uploads and the
  save from the state that the listing left, and the listing itself has added no
  alert and no write.
\<close>

theorem handleAddNews_listing_raises:
  assumes f: "news_title f = Some tv" "news_content f = Some cv" "publish_pin f = Some pv"
    and v: "trim tv \<noteq> []" "trim cv \<noteq> []" "trim pv \<noteq> []"
    and na: "JStr (hashPassword e (trim pv)) \<noteq> ADMIN_PASSWORD_HASH w"
    and us: "JStr (hashPassword e (trim pv)) = USER_PASSWORD_HASH w"
    and g: "(\<exists>err. fst (getNews e w) = Inl err)
            \<or> (\<exists>listing err. fst (getNews e w) = Inr listing \<and> count_user_posts listing = Inl err)"
  shows "handleAddNews e f w =
           upload_and_save e f (trim tv) (trim cv)
             (fix_link (case news_link f of None \<Rightarrow> [] | Some v \<Rightarrow> trim v)) User
             (snd (getNews e w))
         \<and> list_all quiet (new_events w (snd (getNews e w)))
         \<and> localStorage (snd (getNews e w)) = localStorage w"
proof -
  from na us have a: "auth_check e w (trim pv) = Some User"
    by (auto simp: auth_check_def Let_def)
  obtain r w1 where gw: "getNews e w = (r, w1)"
    by (cases "getNews e w")
  with g have lc: "limit_check e User w = (None, w1)"
    by (cases r) (auto simp: limit_check_def)
  from f v a lc gw have "handleAddNews e f w =
      upload_and_save e f (trim tv) (trim cv)
        (fix_link (case news_link f of None \<Rightarrow> [] | Some v \<Rightarrow> trim v)) User
        (snd (getNews e w))"
    by (simp add: handleAddNews_def Let_def)
  then show ?thesis
    by (simp add: new_events_getNews)
qed

theorem handleAddNews_listing_raises_witness:
  "fst (getNews (test_env net_read_down) (remote_world (Some (Malformed ''{broken'')))) = Inl SyntaxError
   \<and> Fetch (save_request ''https://db.example.co'' (JStr ''k1'') (news_item ''Sixth'' ''user''))
       \<in> set (events (snd (handleAddNews (test_env net_read_down) (draft_form ''Sixth'' ''user-pin'')
                 (remote_world (Some (Malformed ''{broken''))))))
   \<and> \<not> list_ex is_alert (events (snd (handleAddNews (test_env net_read_down)
                 (draft_form ''Sixth'' ''user-pin'') (remote_world (Some (Malformed ''{broken''))))))
   \<and> fst (getNews (test_env net_read_down) (remote_world (Some (Json (JArr (JNull # five_user_items))))))
       = Inr (JArr (JNull # five_user_items))
   \<and> count_user_posts (JArr (JNull # five_user_items)) = Inl TypeError
   \<and> Fetch (save_request ''https://db.example.co'' (JStr ''k1'') (news_item ''Sixth'' ''user''))
       \<in> set (events (snd (handleAddNews (test_env net_read_down) (draft_form ''Sixth'' ''user-pin'')
                 (remote_world (Some (Json (JArr (JNull # five_user_items))))))))
   \<and> \<not> list_ex is_alert (events (snd (handleAddNews (test_env net_read_down)
                 (draft_form ''Sixth'' ''user-pin'')
                 (remote_world (Some (Json (JArr (JNull # five_user_items))))))))"
  using handleAddNews_listing_raises [of "draft_form ''Sixth'' ''user-pin''" "''Sixth''" "''World''"
      "''user-pin''" "test_env net_read_down" "remote_world (Some (Malformed ''{broken''))"]
    handleAddNews_listing_raises [of "draft_form ''Sixth'' ''user-pin''" "''Sixth''" "''World''"
      "''user-pin''" "test_env net_read_down"
      "remote_world (Some (Json (JArr (JNull # five_user_items))))"]
  by (simp add: draft_form_def test_env_def remote_world_def news_item_def
      five_user_items_def count_user_posts_def is_user_post_def get_prop_def
      trim_def is_space_def getNews_def getNews_try_def getSupabaseCredentials_def stored_news_def
      upload_and_save_def saveNews_def saveNews_try_def renderNewsAdmin_def render_cards_def
      createNewsCardHtml_def emit_def
      fix_link_def has_scheme_def lower_ascii_def Let_def strip_slash_def list_request_def
      save_request_def save_payload_def JSON_stringify_def)

section \<open>Clearing all items\<close>




end
